theory Spec2Isabelle
  imports Main
begin

section \<open>The UPB PIM config flow (homeassistant/components/upb/config\_flow.py)\<close>

text \<open>
  The module is glue between three collaborators that are not part of the file:
  the device client \<open>upb_lib.UpbPim\<close>, the standard library (\<open>urlparse\<close>, the
  event loop with \<open>async_timeout\<close>) and the config-entries framework of the platform.
  The functions of the file itself are embedded as they are written; every raise is a
  value \<open>Inl e\<close> of a sum type, and the calls made on the device client are recorded in
  a trace, in the order the code makes them.
\<close>

subsection \<open>Dictionaries, keys and exceptions\<close>

text \<open>
  A Python dict with string keys is a map \<open>string \<rightharpoonup> string\<close>: the values that the
  form schema admits are strings. \<open>d.get(k)\<close> is \<open>d k\<close> (\<open>None\<close> when the key is absent),
  \<open>d[k]\<close> raises \<open>KeyError\<close> when the key is absent.
\<close>

type_synonym pydict = "string \<rightharpoonup> string"

datatype exn =
    KeyError string
  | CannotConnect
  | InvalidUpbFile
  | LibraryError string  \<comment> \<open>an exception (a subclass of \<open>Exception\<close>) raised inside the device client\<close>
  | CancelledError  \<comment> \<open>\<open>asyncio.CancelledError\<close>, a \<open>BaseException\<close> that is not an \<open>Exception\<close>\<close>

text \<open>
  The four key constants come from \<open>homeassistant.const\<close>, which is not under src/. Only
  that they differ from one another, and from the literal keys \<open>title\<close> and \<open>base\<close>,
  matters below.
\<close>

text \<open>Modelled from the spec: \<open>CONF_ADDRESS\<close> of \<open>homeassistant.const\<close> (not under src/),
  the key of the address field of the input.\<close>

definition CONF_ADDRESS :: string where
  "CONF_ADDRESS = ''address''"

text \<open>Modelled from the spec: \<open>CONF_FILE_PATH\<close> of \<open>homeassistant.const\<close> (not under
  src/), the key of the file path field of the input and of the record.\<close>

definition CONF_FILE_PATH :: string where
  "CONF_FILE_PATH = ''file_path''"

text \<open>Modelled from the spec: \<open>CONF_HOST\<close> of \<open>homeassistant.const\<close> (not under src/), the
  key of the host field, which holds the URL.\<close>

definition CONF_HOST :: string where
  "CONF_HOST = ''host''"

text \<open>Modelled from the spec: \<open>CONF_PROTOCOL\<close> of \<open>homeassistant.const\<close> (not under src/),
  the key of the transport kind of the input.\<close>

definition CONF_PROTOCOL :: string where
  "CONF_PROTOCOL = ''protocol''"

definition subscript :: "pydict \<Rightarrow> string \<Rightarrow> exn + string" where
  "subscript d k = (case d k of None \<Rightarrow> Inl (KeyError k) | Some v \<Rightarrow> Inr v)"

definition PROTOCOL_MAP :: pydict where
  "PROTOCOL_MAP = [''TCP'' \<mapsto> ''tcp://'', ''Serial port'' \<mapsto> ''serial://'']"

definition VALIDATE_TIMEOUT :: nat where
  "VALIDATE_TIMEOUT = 15"

subsection \<open>\<open>_make_url_from_data\<close>\<close>

text \<open>
  \<open>if host := data.get(CONF_HOST): return host\<close> takes the branch when the value is
  truthy: the key is present and the string is not empty. Otherwise the two subscripts
  and the lookup in \<open>PROTOCOL_MAP\<close> are made in the order of the source, each of them
  raising \<open>KeyError\<close> on a missing key.
\<close>

definition make_url_from_data :: "pydict \<Rightarrow> exn + string" where
  "make_url_from_data data =
     (case data CONF_HOST of
        Some (c # cs) \<Rightarrow> Inr (c # cs)
      | _ \<Rightarrow>
         (case subscript data CONF_PROTOCOL of
            Inl e \<Rightarrow> Inl e
          | Inr p \<Rightarrow>
             (case subscript PROTOCOL_MAP p of
                Inl e \<Rightarrow> Inl e
              | Inr protocol \<Rightarrow>
                 (case subscript data CONF_ADDRESS of
                    Inl e \<Rightarrow> Inl e
                  | Inr address \<Rightarrow> Inr (protocol @ address)))))"

text \<open>The transport kinds of the specification and their schemes, for comparison with
  \<open>PROTOCOL_MAP\<close>.\<close>

datatype transport = TCP | SerialPort

fun protocol_name :: "transport \<Rightarrow> string" where
  "protocol_name TCP = ''TCP''"
| "protocol_name SerialPort = ''Serial port''"

fun scheme :: "transport \<Rightarrow> string" where
  "scheme TCP = ''tcp''"
| "scheme SerialPort = ''serial''"

subsection \<open>The device client\<close>

text \<open>
  \<open>upb_lib.UpbPim\<close> is an external collaborator. What one constructed client does in
  this run is a parameter: whether it reports its configuration as usable, what
  \<open>connect\<close> does (raise, or return and later call the connected callback
  \<open>t\<close> time units after the call, or never), what \<open>disconnect\<close> does, and the
  network identifier it holds. The constructor is a parameter too; it is given the
  two values of the config dict, \<open>url\<close> and \<open>UPStartExportFile\<close>.
\<close>

record upb_pim =
  config_ok :: bool
  connect :: "exn + nat option"
  disconnect :: "exn option"
  network_id :: string

text \<open>The calls the flow makes on its collaborators, in order; \<open>Waited n\<close> records that
  the coroutine was suspended for \<open>n\<close> time units.\<close>

datatype event =
    ValidateInput
  | Construct string "string option"
  | Connect
  | Waited nat
  | Disconnect

text \<open>
  \<open>with suppress(asyncio.TimeoutError): async with async_timeout.timeout(t): await
  connected_event.wait()\<close>. Time is counted in whole units from the call of
  \<open>connect\<close>; \<open>signal\<close> is the time at which the client calls the connected callback,
  if it ever does, and \<open>cancel\<close> the time at which the task running the flow is
  cancelled from outside, if it ever is. The wait ends when the event is set or when
  the timeout expires, whichever is first, and the timeout error is swallowed; the
  result is then the value of \<open>connected_event.is_set()\<close> and the time spent waiting.
  The code does not ask whether the timeout expired but whether the event is set, so a
  callback at the very moment of the deadline counts as a connection. A cancellation
  that arrives before the wait has ended raises \<open>CancelledError\<close> at the \<open>await\<close>;
  neither \<open>suppress(asyncio.TimeoutError)\<close> nor the timeout context swallows it.
\<close>

definition wait_connected :: "nat \<Rightarrow> nat option \<Rightarrow> nat option \<Rightarrow> (exn + bool) \<times> nat" where
  "wait_connected timeout signal cancel =
     (let ends = (case signal of None \<Rightarrow> timeout | Some t \<Rightarrow> min t timeout);
          is_set = (case signal of None \<Rightarrow> False | Some t \<Rightarrow> t \<le> timeout)
      in case cancel of
           None \<Rightarrow> (Inr is_set, ends)
         | Some c \<Rightarrow> if c < ends then (Inl CancelledError, c) else (Inr is_set, ends))"

subsection \<open>The platform: entries, flow object, step results\<close>

record config_entry =
  entry_unique_id :: "string option"
  entry_title :: string
  entry_data :: pydict

record config_flow =
  importing :: bool
  unique_id :: "string option"

datatype flow_result =
    Abort string
  | CreateEntry config_entry
  | ShowForm pydict
  | Uncaught exn

text \<open>The surroundings of one run: \<open>urlparse(u).hostname\<close> as a function of \<open>u\<close>, the
  constructor of the device client, the entries \<open>_async_current_entries()\<close> returns, and
  the time into the wait of \<open>_validate_input\<close> at which a cancellation from outside
  reaches the task (\<open>None\<close>: none does; a time at which the wait is already over has
  no effect on the validator, which does not suspend again).\<close>

record env =
  hostname :: "string \<Rightarrow> string option"
  UpbPim :: "string \<Rightarrow> string option \<Rightarrow> exn + upb_pim"
  current_entries :: "config_entry list"
  cancel_at :: "nat option"

text \<open>
  The methods of the base class \<open>config_entries.ConfigFlow\<close> and the registration store
  belong to the platform and are not under src/; each is modelled from what the
  specification says of it.
\<close>

text \<open>Modelled from the spec: \<open>async_abort\<close> of the base class (not under src/). The flow
  ends with an abort carrying the reason.\<close>

definition async_abort :: "string \<Rightarrow> flow_result" where
  "async_abort reason = Abort reason"

text \<open>Modelled from the spec: \<open>async_show_form\<close> of the base class (not under src/). The
  form is shown again with the accumulated errors; the step identifier and the schema
  are the same in every call and are left out.\<close>

definition async_show_form :: "pydict \<Rightarrow> flow_result" where
  "async_show_form errors = ShowForm errors"

text \<open>Modelled from the spec: \<open>async_create_entry\<close> of the base class (not under src/). The
  record is created with the given title and data, keyed by the unique identifier set
  on the flow.\<close>

definition async_create_entry :: "config_flow \<Rightarrow> string \<Rightarrow> pydict \<Rightarrow> flow_result" where
  "async_create_entry self title data =
     CreateEntry \<lparr>entry_unique_id = unique_id self, entry_title = title, entry_data = data\<rparr>"

text \<open>Modelled from the spec: \<open>async_set_unique_id\<close> of the base class (not under src/).
  It stores the identifier on the flow. No other flow is in progress (the spec has a
  single validation in flight).\<close>

definition async_set_unique_id :: "config_flow \<Rightarrow> string \<Rightarrow> config_flow" where
  "async_set_unique_id self uid = self\<lparr>unique_id := Some uid\<rparr>"

text \<open>Modelled from the spec: \<open>_abort_if_unique_id_configured\<close> of the base class (not under
  src/). When the identifier set on the flow is that of an existing registration the
  flow aborts with "already configured"; the result is the abort, or \<open>None\<close> when the
  flow goes on. An identifier that is not set matches nothing.\<close>

definition abort_if_unique_id_configured :: "env \<Rightarrow> config_flow \<Rightarrow> flow_result option" where
  "abort_if_unique_id_configured env self =
     (if \<exists>e \<in> set (current_entries env).
           unique_id self \<noteq> None \<and> entry_unique_id e = unique_id self
      then Some (Abort ''already_configured'') else None)"

text \<open>Modelled from the spec: the registration store (not under src/). A created entry is
  added to the existing ones; every other result leaves them as they are.\<close>

fun persist :: "config_entry list \<Rightarrow> flow_result \<Rightarrow> config_entry list" where
  "persist es (CreateEntry e) = es @ [e]"
| "persist es _ = es"

subsection \<open>\<open>_validate_input\<close>\<close>

record info =
  title :: string
  host :: string
  file_path :: "string option"

definition validate_input ::
  "env \<Rightarrow> pydict \<Rightarrow> (exn + string \<times> info) \<times> event list" where
  "validate_input env data =
     (let path = data CONF_FILE_PATH in
      case make_url_from_data data of
        Inl e \<Rightarrow> (Inl e, [])
      | Inr url \<Rightarrow>
         (case UpbPim env url path of
            Inl e \<Rightarrow> (Inl e, [Construct url path])
          | Inr upb \<Rightarrow>
             if \<not> config_ok upb then (Inl InvalidUpbFile, [Construct url path])
             else
              (case connect upb of
                 Inl e \<Rightarrow> (Inl e, [Construct url path, Connect])
               | Inr signal \<Rightarrow>
                  (case wait_connected VALIDATE_TIMEOUT signal (cancel_at env) of
                     (Inl e, elapsed) \<Rightarrow>
                      (Inl e, [Construct url path, Connect, Waited elapsed])
                   | (Inr is_set, elapsed) \<Rightarrow>
                      (case disconnect upb of
                         Some e \<Rightarrow>
                          (Inl e, [Construct url path, Connect, Waited elapsed, Disconnect])
                       | None \<Rightarrow>
                          if \<not> is_set
                          then (Inl CannotConnect,
                                [Construct url path, Connect, Waited elapsed, Disconnect])
                          else (Inr (network_id upb,
                                     \<lparr>title = ''UPB'', host = url, file_path = path\<rparr>),
                                [Construct url path, Connect, Waited elapsed,
                                 Disconnect]))))))"

subsection \<open>The flow\<close>

text \<open>\<open>_url_already_configured\<close>: the set comprehension reads \<open>entry.data[CONF_HOST]\<close> of
  every entry, so an entry without that key raises \<open>KeyError\<close>.\<close>

fun existing_hosts :: "(string \<Rightarrow> string option) \<Rightarrow> config_entry list \<Rightarrow> exn + string option set" where
  "existing_hosts hn [] = Inr {}"
| "existing_hosts hn (entry # es) =
     (case subscript (entry_data entry) CONF_HOST of
        Inl e \<Rightarrow> Inl e
      | Inr h \<Rightarrow>
         (case existing_hosts hn es of
            Inl e \<Rightarrow> Inl e
          | Inr hs \<Rightarrow> Inr (insert (hn h) hs)))"

definition url_already_configured :: "env \<Rightarrow> string \<Rightarrow> exn + bool" where
  "url_already_configured env url =
     (case existing_hosts (hostname env) (current_entries env) of
        Inl e \<Rightarrow> Inl e
      | Inr hs \<Rightarrow> Inr (hostname env url \<in> hs))"

text \<open>The three \<open>except\<close> clauses of \<open>async_step_user\<close>, in their order: the token put
  into \<open>errors["base"]\<close>. The last clause, \<open>except Exception\<close>, catches every other
  exception that is an \<open>Exception\<close>; \<open>CancelledError\<close> is not one, so no clause
  catches it (\<open>None\<close>) and it leaves the step.\<close>

fun error_token :: "exn \<Rightarrow> string option" where
  "error_token CannotConnect = Some ''cannot_connect''"
| "error_token InvalidUpbFile = Some ''invalid_upb_file''"
| "error_token (KeyError k) = Some ''unknown''"
| "error_token (LibraryError m) = Some ''unknown''"
| "error_token CancelledError = None"

text \<open>What the step does once the \<open>try\<close> block has raised \<open>e\<close>: with a token in
  \<open>errors\<close> the entry is not created and the form is shown with the errors.\<close>

definition except_clauses ::
  "exn \<Rightarrow> config_flow \<Rightarrow> event list \<Rightarrow> flow_result \<times> config_flow \<times> event list" where
  "except_clauses e self tr =
     (case error_token e of
        Some token \<Rightarrow> (async_show_form [''base'' \<mapsto> token], self, tr)
      | None \<Rightarrow> (Uncaught e, self, tr))"

text \<open>
  \<open>async_step_user\<close>. The \<open>try\<close> block holds the construction of the URL, the
  address check and the validation; an exception of any of them goes through the
  \<open>except\<close> clauses. The statements after the \<open>try\<close> (the identifier check, the
  creation of the entry) are outside it, so the \<open>KeyError\<close> of
  \<open>user_input[CONF_FILE_PATH]\<close> is not caught. \<open>DATA_SCHEMA\<close> is applied by the platform
  to what the user types before the step is called; the step itself accepts any dict.
\<close>

definition async_step_user ::
  "env \<Rightarrow> config_flow \<Rightarrow> pydict option \<Rightarrow> flow_result \<times> config_flow \<times> event list" where
  "async_step_user env self user_input =
     (case user_input of
        None \<Rightarrow> (async_show_form Map.empty, self, [])
      | Some ui \<Rightarrow>
         (case make_url_from_data ui of
            Inl e \<Rightarrow> except_clauses e self []
          | Inr url \<Rightarrow>
             (case url_already_configured env url of
                Inl e \<Rightarrow> except_clauses e self []
              | Inr True \<Rightarrow> (async_abort ''already_configured'', self, [])
              | Inr False \<Rightarrow>
                 (case validate_input env ui of
                    (Inl e, tr) \<Rightarrow> except_clauses e self (ValidateInput # tr)
                  | (Inr (nid, nfo), tr) \<Rightarrow>
                     (let self' = async_set_unique_id self nid in
                      case abort_if_unique_id_configured env self' of
                        Some r \<Rightarrow> (r, self', ValidateInput # tr)
                      | None \<Rightarrow>
                         if importing self'
                         then (async_create_entry self' (title nfo) ui, self',
                               ValidateInput # tr)
                         else
                          (case subscript ui CONF_FILE_PATH of
                             Inl e \<Rightarrow> (Uncaught e, self', ValidateInput # tr)
                           | Inr fp \<Rightarrow>
                              (async_create_entry self' (title nfo)
                                 [CONF_HOST \<mapsto> host nfo, CONF_FILE_PATH \<mapsto> fp],
                               self', ValidateInput # tr)))))))"

definition async_step_import ::
  "env \<Rightarrow> config_flow \<Rightarrow> pydict \<Rightarrow> flow_result \<times> config_flow \<times> event list" where
  "async_step_import env self user_input =
     async_step_user env (self\<lparr>importing := True\<rparr>) (Some user_input)"

text \<open>\<open>ConfigFlow.__init__\<close>; the unique identifier of a fresh flow is unset.\<close>

definition ConfigFlow :: config_flow where
  "ConfigFlow = \<lparr>importing = False, unique_id = None\<rparr>"

subsection \<open>The store across flows, and predicates on traces\<close>

text \<open>The unique identifiers of the registered entries, in order; an entry without one
  contributes nothing.\<close>

fun registered_ids :: "config_entry list \<Rightarrow> string list" where
  "registered_ids [] = []"
| "registered_ids (e # es) =
     (case entry_unique_id e of None \<Rightarrow> registered_ids es | Some u \<Rightarrow> u # registered_ids es)"

text \<open>Modelled from the spec: a sequence of flows against the registration store, which is
  not under src/. Each flow reads the entries registered so far, with its own device
  client and flow object, and what it creates is stored before the next one starts (the
  spec has callers serialise registration attempts).\<close>

fun submit_all ::
  "config_entry list \<Rightarrow> (env \<times> config_flow \<times> pydict option) list \<Rightarrow> config_entry list" where
  "submit_all es [] = es"
| "submit_all es ((env, self, user_input) # rest) =
     submit_all
       (persist es (fst (async_step_user (env\<lparr>current_entries := es\<rparr>) self user_input))) rest"

text \<open>Every \<open>Connect\<close> of a trace has a \<open>Disconnect\<close> after it.\<close>

fun disconnect_follows :: "event list \<Rightarrow> bool" where
  "disconnect_follows [] = True"
| "disconnect_follows (Connect # es) = (Disconnect \<in> set es \<and> disconnect_follows es)"
| "disconnect_follows (_ # es) = disconnect_follows es"

subsection \<open>Concrete runs\<close>

text \<open>
  The scenario of the specification: the input \<open>{protocol: TCP, address:
  "192.0.2.5:2101", filePath: ""}\<close> and a device client with the network identifier
  \<open>NET42\<close>. \<open>urlparse_hostname\<close> lists the value of \<open>urlparse(u).hostname\<close> for the URLs
  of the examples; \<open>pim ok c\<close> is a client reporting \<open>config_ok = ok\<close> whose \<open>connect\<close>
  does \<open>c\<close>. In \<open>scenario_env\<close> the task is never cancelled.
\<close>

definition urlparse_hostname :: "string \<Rightarrow> string option" where
  "urlparse_hostname = map_of
     [(''tcp://192.0.2.5:2101'', ''192.0.2.5''),
      (''tcp://192.0.2.5:2102'', ''192.0.2.5''),
      (''tcp://192.0.2.9:2101'', ''192.0.2.9'')]"

definition scenario_input :: pydict where
  "scenario_input =
     [CONF_PROTOCOL \<mapsto> ''TCP'', CONF_ADDRESS \<mapsto> ''192.0.2.5:2101'', CONF_FILE_PATH \<mapsto> []]"


definition other_host_input :: pydict where
  "other_host_input =
     [CONF_PROTOCOL \<mapsto> ''TCP'', CONF_ADDRESS \<mapsto> ''192.0.2.9:2101'', CONF_FILE_PATH \<mapsto> []]"

definition junk_input :: pydict where
  "junk_input = [''foo'' \<mapsto> ''goo'', ''goo'' \<mapsto> ''foo'']"

definition pim :: "bool \<Rightarrow> exn + nat option \<Rightarrow> upb_pim" where
  "pim ok c = \<lparr>config_ok = ok, connect = c, disconnect = None, network_id = ''NET42''\<rparr>"

definition scenario_env :: "upb_pim \<Rightarrow> config_entry list \<Rightarrow> env" where
  "scenario_env upb es =
     \<lparr>hostname = urlparse_hostname, UpbPim = (\<lambda>url path. Inr upb), current_entries = es,
      cancel_at = None\<rparr>"

text \<open>A second device, with the network identifier \<open>NET7\<close>, and a device whose
  \<open>disconnect\<close> raises.\<close>

definition second_pim :: upb_pim where
  "second_pim =
     \<lparr>config_ok = True, connect = Inr (Some 2), disconnect = None, network_id = ''NET7''\<rparr>"


definition entry_at :: "string \<Rightarrow> string \<Rightarrow> config_entry" where
  "entry_at uid url =
     \<lparr>entry_unique_id = Some uid, entry_title = ''UPB'',
      entry_data = [CONF_HOST \<mapsto> url, CONF_FILE_PATH \<mapsto> []]\<rparr>"

section \<open>Properties\<close>

subsection \<open>Auxiliary facts\<close>

lemmas conf_defs = CONF_ADDRESS_def CONF_FILE_PATH_def CONF_HOST_def CONF_PROTOCOL_def

lemma PROTOCOL_MAP_scheme: "PROTOCOL_MAP (protocol_name k) = Some (scheme k @ ''://'')"
  by (cases k) (simp_all add: PROTOCOL_MAP_def)

lemma PROTOCOL_MAP_Some:
  "PROTOCOL_MAP p = Some protocol \<Longrightarrow> \<exists>k. p = protocol_name k \<and> protocol = scheme k @ ''://''"
proof -
  assume a: "PROTOCOL_MAP p = Some protocol"
  then have "p = ''TCP'' \<or> p = ''Serial port''"
    by (auto simp: PROTOCOL_MAP_def split: if_splits)
  then show ?thesis
  proof
    assume "p = ''TCP''"
    with a have "p = protocol_name TCP \<and> protocol = scheme TCP @ ''://''"
      by (simp add: PROTOCOL_MAP_def)
    then show ?thesis ..
  next
    assume "p = ''Serial port''"
    with a have "p = protocol_name SerialPort \<and> protocol = scheme SerialPort @ ''://''"
      by (simp add: PROTOCOL_MAP_def)
    then show ?thesis ..
  qed
qed

lemma make_url_explicit:
  "data CONF_HOST = Some h \<Longrightarrow> h \<noteq> [] \<Longrightarrow> make_url_from_data data = Inr h"
  by (cases h) (simp_all add: make_url_from_data_def)

lemma make_url_composed:
  assumes "data CONF_HOST = None \<or> data CONF_HOST = Some []"
  shows "make_url_from_data data =
     (case subscript data CONF_PROTOCOL of
        Inl e \<Rightarrow> Inl e
      | Inr p \<Rightarrow>
         (case subscript PROTOCOL_MAP p of
            Inl e \<Rightarrow> Inl e
          | Inr protocol \<Rightarrow>
             (case subscript data CONF_ADDRESS of
                Inl e \<Rightarrow> Inl e
              | Inr address \<Rightarrow> Inr (protocol @ address))))"
  using assms by (auto simp: make_url_from_data_def)

lemma make_url_from_input:
  assumes "(data CONF_HOST = Some url \<and> url \<noteq> []) \<or>
     ((data CONF_HOST = None \<or> data CONF_HOST = Some []) \<and>
      data CONF_PROTOCOL = Some (protocol_name k) \<and> data CONF_ADDRESS = Some a \<and>
      url = scheme k @ ''://'' @ a)"
  shows "make_url_from_data data = Inr url"
  using assms
  by (auto simp: make_url_explicit make_url_composed subscript_def PROTOCOL_MAP_scheme)

lemma make_url_Inr:
  assumes "make_url_from_data data = Inr url"
  shows "(data CONF_HOST = Some url \<and> url \<noteq> []) \<or>
     ((data CONF_HOST = None \<or> data CONF_HOST = Some []) \<and>
      (\<exists>k a. data CONF_PROTOCOL = Some (protocol_name k) \<and> data CONF_ADDRESS = Some a \<and>
         url = scheme k @ ''://'' @ a))"
proof (cases "data CONF_HOST = None \<or> data CONF_HOST = Some []")
  case True
  with assms obtain p protocol a where
    "data CONF_PROTOCOL = Some p" "PROTOCOL_MAP p = Some protocol"
    "data CONF_ADDRESS = Some a" "url = protocol @ a"
    by (auto simp: make_url_composed subscript_def split: option.splits)
  with PROTOCOL_MAP_Some [of p protocol] True show ?thesis
    by auto
next
  case False
  then obtain h where h: "data CONF_HOST = Some h" "h \<noteq> []"
    by auto
  with assms have "url = h"
    by (simp add: make_url_explicit)
  with h show ?thesis
    by simp
qed

lemma existing_hosts_eq:
  "existing_hosts hn es =
     (if \<forall>e \<in> set es. entry_data e CONF_HOST \<noteq> None
      then Inr ((\<lambda>e. hn (the (entry_data e CONF_HOST))) ` set es)
      else Inl (KeyError CONF_HOST))"
  by (induction es) (auto simp: subscript_def split: option.splits)

lemma url_already_configured_eq:
  "url_already_configured env url =
     (if \<forall>e \<in> set (current_entries env). entry_data e CONF_HOST \<noteq> None
      then Inr (\<exists>e \<in> set (current_entries env).
                  hostname env (the (entry_data e CONF_HOST)) = hostname env url)
      else Inl (KeyError CONF_HOST))"
  by (simp add: url_already_configured_def existing_hosts_eq image_iff eq_commute)

lemma url_already_configured_True:
  assumes "\<forall>e \<in> set (current_entries env). entry_data e CONF_HOST \<noteq> None"
    and "\<exists>e \<in> set (current_entries env). \<exists>h. entry_data e CONF_HOST = Some h \<and>
           hostname env h = hostname env url"
  shows "url_already_configured env url = Inr True"
  using assms by (force simp: url_already_configured_eq)

lemma step_user_address_match:
  assumes "make_url_from_data ui = Inr url"
    and "url_already_configured env url = Inr True"
  shows "async_step_user env self (Some ui) = (Abort ''already_configured'', self, [])"
  using assms by (simp add: async_step_user_def async_abort_def)

lemma step_user_address_keyerror:
  assumes "make_url_from_data ui = Inr url"
    and "\<exists>e \<in> set (current_entries env). entry_data e CONF_HOST = None"
  shows "async_step_user env self (Some ui) = (ShowForm [''base'' \<mapsto> ''unknown''], self, [])"
proof -
  have "url_already_configured env url = Inl (KeyError CONF_HOST)"
    using assms(2) by (auto simp: url_already_configured_eq)
  with assms(1) show ?thesis
    by (simp add: async_step_user_def except_clauses_def async_show_form_def)
qed


lemma validate_input_waited:
  assumes "make_url_from_data data = Inr url"
    and "UpbPim env url (data CONF_FILE_PATH) = Inr upb"
    and "config_ok upb"
    and "connect upb = Inr signal"
    and "wait_connected VALIDATE_TIMEOUT signal (cancel_at env) = (w, n)"
  shows "validate_input env data =
     (case w of
        Inl e \<Rightarrow> (Inl e, [Construct url (data CONF_FILE_PATH), Connect, Waited n])
      | Inr is_set \<Rightarrow>
         (case disconnect upb of
            Some e \<Rightarrow> Inl e
          | None \<Rightarrow>
             if is_set
             then Inr (network_id upb,
                       \<lparr>title = ''UPB'', host = url, file_path = data CONF_FILE_PATH\<rparr>)
             else Inl CannotConnect,
          [Construct url (data CONF_FILE_PATH), Connect, Waited n, Disconnect]))"
  using assms by (simp add: validate_input_def Let_def split: sum.splits option.splits)

lemma validate_input_Inr:
  assumes "validate_input env data = (Inr (nid, nfo), tr)"
  shows "\<exists>url upb t. make_url_from_data data = Inr url \<and>
      UpbPim env url (data CONF_FILE_PATH) = Inr upb \<and> config_ok upb \<and>
      connect upb = Inr (Some t) \<and> t \<le> VALIDATE_TIMEOUT \<and> disconnect upb = None \<and>
      nid = network_id upb \<and>
      nfo = \<lparr>title = ''UPB'', host = url, file_path = data CONF_FILE_PATH\<rparr> \<and>
      tr = [Construct url (data CONF_FILE_PATH), Connect, Waited t, Disconnect]"
  using assms
  by (auto simp: validate_input_def Let_def wait_connected_def
      split: sum.splits if_splits option.splits prod.splits)

lemma except_clauses_no_entry: "fst (except_clauses e self tr) \<noteq> CreateEntry x"
  by (simp add: except_clauses_def async_show_form_def split: option.splits)

lemma except_clauses_not_created: "except_clauses e self tr \<noteq> (CreateEntry x, s, t)"
  by (simp add: except_clauses_def async_show_form_def split: option.splits)

lemma registered_ids_append:
  "registered_ids (xs @ ys) = registered_ids xs @ registered_ids ys"
  by (induction xs) (simp_all split: option.splits)

lemma set_registered_ids:
  "set (registered_ids es) = {u. \<exists>e \<in> set es. entry_unique_id e = Some u}"
  by (induction es) (auto split: option.splits)

lemma step_user_CreateEntry:
  assumes "fst (async_step_user env self uio) = CreateEntry e"
  shows "\<exists>nid. entry_unique_id e = Some nid \<and>
           (\<forall>e' \<in> set (current_entries env). entry_unique_id e' \<noteq> Some nid)"
  using assms
  by (auto simp: async_step_user_def async_show_form_def async_abort_def
      async_create_entry_def async_set_unique_id_def abort_if_unique_id_configured_def Let_def
      except_clauses_no_entry
      split: option.splits sum.splits bool.splits prod.splits if_splits)

lemma persist_step_distinct:
  assumes "distinct (registered_ids (current_entries env))"
  shows "distinct (registered_ids
           (persist (current_entries env) (fst (async_step_user env self uio))))"
proof (cases "fst (async_step_user env self uio)")
  case (CreateEntry e)
  from step_user_CreateEntry [OF this] obtain nid where
    "entry_unique_id e = Some nid" "nid \<notin> set (registered_ids (current_entries env))"
    by (auto simp: set_registered_ids)
  with assms CreateEntry show ?thesis
    by (simp add: registered_ids_append)
qed (use assms in simp_all)

lemma submit_all_distinct:
  "distinct (registered_ids es) \<Longrightarrow> distinct (registered_ids (submit_all es subs))"
proof (induction subs arbitrary: es)
  case Nil
  then show ?case by simp
next
  case (Cons s subs)
  obtain env self uio where s: "s = (env, self, uio)"
    by (cases s) auto
  have "distinct (registered_ids (persist (current_entries (env\<lparr>current_entries := es\<rparr>))
          (fst (async_step_user (env\<lparr>current_entries := es\<rparr>) self uio))))"
    using Cons.prems by (intro persist_step_distinct) simp
  then show ?case
    using Cons.IH s by simp
qed

text \<open>The runs of the scenario, evaluated from the definitions.\<close>

lemma scenario_url: "make_url_from_data scenario_input = Inr ''tcp://192.0.2.5:2101''"
  by (simp add: make_url_from_data_def scenario_input_def conf_defs subscript_def PROTOCOL_MAP_def)


lemma other_host_url: "make_url_from_data other_host_input = Inr ''tcp://192.0.2.9:2101''"
  by (simp add: make_url_from_data_def other_host_input_def conf_defs subscript_def
      PROTOCOL_MAP_def)

lemma scenario_file_path: "scenario_input CONF_FILE_PATH = Some []"
  by (simp add: scenario_input_def conf_defs)

lemma other_host_file_path: "other_host_input CONF_FILE_PATH = Some []"
  by (simp add: other_host_input_def conf_defs)

lemma scenario_no_host: "scenario_input CONF_HOST = None"
  by (simp add: scenario_input_def conf_defs)

lemma scenario_check_empty:
  "url_already_configured (scenario_env upb []) url = Inr False"
  by (simp add: url_already_configured_def scenario_env_def)

lemma scenario_check_other_host:
  "url_already_configured (scenario_env upb [entry_at uid ''tcp://192.0.2.9:2101''])
     ''tcp://192.0.2.5:2101'' = Inr False"
  by (simp add: url_already_configured_def scenario_env_def entry_at_def subscript_def
      urlparse_hostname_def conf_defs)

lemma scenario_wait:
  "wait_connected VALIDATE_TIMEOUT (Some 2) (cancel_at (scenario_env upb es)) = (Inr True, 2)"
  "wait_connected VALIDATE_TIMEOUT None (cancel_at (scenario_env upb es)) = (Inr False, 15)"
  by (simp_all add: wait_connected_def VALIDATE_TIMEOUT_def scenario_env_def)

lemma scenario_validate_any:
  assumes "make_url_from_data ui = Inr url"
    and "config_ok upb" and "connect upb = Inr (Some 2)" and "disconnect upb = None"
  shows "validate_input (scenario_env upb es) ui =
     (Inr (network_id upb, \<lparr>title = ''UPB'', host = url, file_path = ui CONF_FILE_PATH\<rparr>),
      [Construct url (ui CONF_FILE_PATH), Connect, Waited 2, Disconnect])"
proof -
  have "UpbPim (scenario_env upb es) url (ui CONF_FILE_PATH) = Inr upb"
    by (simp add: scenario_env_def)
  from validate_input_waited [OF assms(1) this assms(2,3) scenario_wait(1)] assms(4)
  show ?thesis
    by simp
qed

lemma scenario_validate:
  "validate_input (scenario_env (pim True (Inr (Some 2))) es) scenario_input =
     (Inr (''NET42'',
           \<lparr>title = ''UPB'', host = ''tcp://192.0.2.5:2101'', file_path = Some []\<rparr>),
      [Construct ''tcp://192.0.2.5:2101'' (Some []), Connect, Waited 2, Disconnect])"
  using scenario_validate_any [OF scenario_url, of "pim True (Inr (Some 2))" es]
  by (simp add: pim_def scenario_file_path)

lemma scenario_first_flow:
  "async_step_user (scenario_env (pim True (Inr (Some 2))) []) ConfigFlow (Some scenario_input) =
     (CreateEntry (entry_at ''NET42'' ''tcp://192.0.2.5:2101''),
      ConfigFlow\<lparr>unique_id := Some ''NET42''\<rparr>,
      [ValidateInput, Construct ''tcp://192.0.2.5:2101'' (Some []), Connect, Waited 2,
       Disconnect])"
proof -
  have "abort_if_unique_id_configured (scenario_env (pim True (Inr (Some 2))) [])
      (async_set_unique_id ConfigFlow ''NET42'') = None"
    by (simp add: abort_if_unique_id_configured_def scenario_env_def)
  then show ?thesis
    by (simp add: async_step_user_def scenario_url scenario_check_empty scenario_validate
        Let_def subscript_def scenario_file_path async_create_entry_def
        async_set_unique_id_def ConfigFlow_def entry_at_def)
qed

lemma scenario_import_flow:
  assumes "url_already_configured (scenario_env upb es) ''tcp://192.0.2.5:2101'' = Inr False"
    and "config_ok upb" and "connect upb = Inr (Some 2)" and "disconnect upb = None"
    and "\<forall>e \<in> set es. entry_unique_id e \<noteq> Some (network_id upb)"
  shows "async_step_import (scenario_env upb es) ConfigFlow scenario_input =
     (CreateEntry \<lparr>entry_unique_id = Some (network_id upb), entry_title = ''UPB'',
                   entry_data = scenario_input\<rparr>,
      ConfigFlow\<lparr>importing := True, unique_id := Some (network_id upb)\<rparr>,
      [ValidateInput, Construct ''tcp://192.0.2.5:2101'' (Some []), Connect, Waited 2,
       Disconnect])"
proof -
  have "abort_if_unique_id_configured (scenario_env upb es)
      (async_set_unique_id (ConfigFlow\<lparr>importing := True\<rparr>) (network_id upb)) = None"
    using assms(5)
    by (auto simp: abort_if_unique_id_configured_def scenario_env_def async_set_unique_id_def)
  with assms(1) show ?thesis
    by (simp add: async_step_import_def async_step_user_def scenario_url
        scenario_validate_any [OF scenario_url assms(2,3,4)] Let_def async_create_entry_def
        async_set_unique_id_def ConfigFlow_def scenario_file_path)
qed

subsection \<open>The record created by the user-driven flow\<close>

text \<open>
  Claim C1. Whenever the user-driven flow creates a record, the title of the record is
  \<open>UPB\<close>, its unique identifier is the network identifier held by the device client
  that was constructed for the input (whose connected callback fired within
  \<open>VALIDATE_TIMEOUT\<close>), and its host field is the effective URL of the input: the host
  field of the input when that is a non-empty string, and otherwise the scheme of the
  transport kind (tcp for TCP, serial for the serial port) followed by \<open>://\<close> and the
  address. And the record is created: an input with that effective URL which passes
  the address check, whose validation succeeds with an identifier that is not
  registered yet, and which has a file path field (the form always supplies one), ends
  in exactly that record.
\<close>

theorem user_flow_creates_record:
  "(\<not> importing self \<and> async_step_user env self (Some ui) = (CreateEntry e, self', tr) \<longrightarrow>
      entry_title e = ''UPB'' \<and>
      (\<exists>url upb t.
         ((ui CONF_HOST = Some url \<and> url \<noteq> []) \<or>
          ((ui CONF_HOST = None \<or> ui CONF_HOST = Some []) \<and>
           (\<exists>k a. ui CONF_PROTOCOL = Some (protocol_name k) \<and> ui CONF_ADDRESS = Some a \<and>
              url = scheme k @ ''://'' @ a))) \<and>
         UpbPim env url (ui CONF_FILE_PATH) = Inr upb \<and>
         connect upb = Inr (Some t) \<and> t \<le> VALIDATE_TIMEOUT \<and>
         entry_unique_id e = Some (network_id upb) \<and>
         entry_data e CONF_HOST = Some url)) \<and>
   (\<not> importing self \<and>
    ((ui CONF_HOST = Some url \<and> url \<noteq> []) \<or>
     ((ui CONF_HOST = None \<or> ui CONF_HOST = Some []) \<and>
      ui CONF_PROTOCOL = Some (protocol_name k) \<and> ui CONF_ADDRESS = Some a \<and>
      url = scheme k @ ''://'' @ a)) \<and>
    url_already_configured env url = Inr False \<and>
    validate_input env ui = (Inr (nid, nfo), tr') \<and>
    (\<forall>x \<in> set (current_entries env). entry_unique_id x \<noteq> Some nid) \<and>
    ui CONF_FILE_PATH = Some fp \<longrightarrow>
      async_step_user env self (Some ui) =
        (CreateEntry \<lparr>entry_unique_id = Some nid, entry_title = ''UPB'',
                      entry_data = [CONF_HOST \<mapsto> url, CONF_FILE_PATH \<mapsto> fp]\<rparr>,
         self\<lparr>unique_id := Some nid\<rparr>, ValidateInput # tr'))"
proof (intro conjI impI)
  assume h: "\<not> importing self \<and>
      async_step_user env self (Some ui) = (CreateEntry e, self', tr)"
  then obtain url nid nfo vtr fp where
    url: "make_url_from_data ui = Inr url"
    and v: "validate_input env ui = (Inr (nid, nfo), vtr)"
    and e: "e = \<lparr>entry_unique_id = Some nid, entry_title = title nfo,
                 entry_data = [CONF_HOST \<mapsto> host nfo, CONF_FILE_PATH \<mapsto> fp]\<rparr>"
    by (auto simp: async_step_user_def async_abort_def async_create_entry_def
        async_set_unique_id_def Let_def subscript_def except_clauses_not_created
        abort_if_unique_id_configured_def
        split: sum.splits bool.splits prod.splits option.splits if_splits)
  from validate_input_Inr [OF v] url obtain upb t where
    c: "UpbPim env url (ui CONF_FILE_PATH) = Inr upb" "connect upb = Inr (Some t)"
      "t \<le> VALIDATE_TIMEOUT" "nid = network_id upb" "title nfo = ''UPB''" "host nfo = url"
    by auto
  from e c show "entry_title e = ''UPB''"
    by simp
  have "entry_data e CONF_HOST = Some url"
    using e c by (simp add: conf_defs)
  with make_url_Inr [OF url] c e
  show "\<exists>url upb t.
         ((ui CONF_HOST = Some url \<and> url \<noteq> []) \<or>
          ((ui CONF_HOST = None \<or> ui CONF_HOST = Some []) \<and>
           (\<exists>k a. ui CONF_PROTOCOL = Some (protocol_name k) \<and> ui CONF_ADDRESS = Some a \<and>
              url = scheme k @ ''://'' @ a))) \<and>
         UpbPim env url (ui CONF_FILE_PATH) = Inr upb \<and>
         connect upb = Inr (Some t) \<and> t \<le> VALIDATE_TIMEOUT \<and>
         entry_unique_id e = Some (network_id upb) \<and>
         entry_data e CONF_HOST = Some url"
    by (intro exI [of _ url] exI [of _ upb] exI [of _ t]) simp
next
  assume h: "\<not> importing self \<and>
    ((ui CONF_HOST = Some url \<and> url \<noteq> []) \<or>
     ((ui CONF_HOST = None \<or> ui CONF_HOST = Some []) \<and>
      ui CONF_PROTOCOL = Some (protocol_name k) \<and> ui CONF_ADDRESS = Some a \<and>
      url = scheme k @ ''://'' @ a)) \<and>
    url_already_configured env url = Inr False \<and>
    validate_input env ui = (Inr (nid, nfo), tr') \<and>
    (\<forall>x \<in> set (current_entries env). entry_unique_id x \<noteq> Some nid) \<and>
    ui CONF_FILE_PATH = Some fp"
  then have url: "make_url_from_data ui = Inr url"
    by (intro make_url_from_input) blast
  from h have v: "validate_input env ui = (Inr (nid, nfo), tr')"
    by simp
  from validate_input_Inr [OF v] url have nfo: "title nfo = ''UPB''" "host nfo = url"
    by auto
  have a: "abort_if_unique_id_configured env (async_set_unique_id self nid) = None"
    using h by (auto simp: abort_if_unique_id_configured_def async_set_unique_id_def)
  show "async_step_user env self (Some ui) =
        (CreateEntry \<lparr>entry_unique_id = Some nid, entry_title = ''UPB'',
                      entry_data = [CONF_HOST \<mapsto> url, CONF_FILE_PATH \<mapsto> fp]\<rparr>,
         self\<lparr>unique_id := Some nid\<rparr>, ValidateInput # tr')"
    using h url v nfo a
    by (simp add: async_step_user_def Let_def subscript_def async_create_entry_def
        async_set_unique_id_def)
qed

theorem user_flow_creates_record_witness:
  "async_step_user (scenario_env (pim True (Inr (Some 2))) []) ConfigFlow (Some scenario_input) =
     (CreateEntry \<lparr>entry_unique_id = Some ''NET42'', entry_title = ''UPB'',
                   entry_data = [CONF_HOST \<mapsto> ''tcp://192.0.2.5:2101'', CONF_FILE_PATH \<mapsto> []]\<rparr>,
      ConfigFlow\<lparr>unique_id := Some ''NET42''\<rparr>,
      [ValidateInput, Construct ''tcp://192.0.2.5:2101'' (Some []), Connect, Waited 2,
       Disconnect]) \<and>
   entry_title (entry_at ''NET42'' ''tcp://192.0.2.5:2101'') = ''UPB'' \<and>
   (\<exists>url upb t.
      ((scenario_input CONF_HOST = Some url \<and> url \<noteq> []) \<or>
       ((scenario_input CONF_HOST = None \<or> scenario_input CONF_HOST = Some []) \<and>
        (\<exists>k a. scenario_input CONF_PROTOCOL = Some (protocol_name k) \<and>
           scenario_input CONF_ADDRESS = Some a \<and> url = scheme k @ ''://'' @ a))) \<and>
      UpbPim (scenario_env (pim True (Inr (Some 2))) []) url (scenario_input CONF_FILE_PATH) =
        Inr upb \<and>
      connect upb = Inr (Some t) \<and> t \<le> VALIDATE_TIMEOUT \<and>
      entry_unique_id (entry_at ''NET42'' ''tcp://192.0.2.5:2101'') = Some (network_id upb) \<and>
      entry_data (entry_at ''NET42'' ''tcp://192.0.2.5:2101'') CONF_HOST = Some url)"
proof -
  let ?env = "scenario_env (pim True (Inr (Some 2))) []"
  have 1: "\<not> importing ConfigFlow"
    by (simp add: ConfigFlow_def)
  have 2: "(scenario_input CONF_HOST = Some ''tcp://192.0.2.5:2101'' \<and>
        ''tcp://192.0.2.5:2101'' \<noteq> []) \<or>
      ((scenario_input CONF_HOST = None \<or> scenario_input CONF_HOST = Some []) \<and>
       scenario_input CONF_PROTOCOL = Some (protocol_name TCP) \<and>
       scenario_input CONF_ADDRESS = Some ''192.0.2.5:2101'' \<and>
       ''tcp://192.0.2.5:2101'' = scheme TCP @ ''://'' @ ''192.0.2.5:2101'')"
    by (simp add: scenario_input_def conf_defs)
  have 5: "\<forall>x \<in> set (current_entries ?env). entry_unique_id x \<noteq> Some ''NET42''"
    by (simp add: scenario_env_def)
  note t = user_flow_creates_record
    [where self = ConfigFlow and env = ?env and ui = scenario_input
      and e = "entry_at ''NET42'' ''tcp://192.0.2.5:2101''"
      and self' = "ConfigFlow\<lparr>unique_id := Some ''NET42''\<rparr>"
      and tr = "[ValidateInput, Construct ''tcp://192.0.2.5:2101'' (Some []), Connect, Waited 2,
        Disconnect]"
      and url = "''tcp://192.0.2.5:2101''" and k = TCP and a = "''192.0.2.5:2101''"
      and nid = "''NET42''"
      and nfo = "\<lparr>title = ''UPB'', host = ''tcp://192.0.2.5:2101'', file_path = Some []\<rparr>"
      and tr' = "[Construct ''tcp://192.0.2.5:2101'' (Some []), Connect, Waited 2, Disconnect]"
      and fp = "[]"]
  have 3: "url_already_configured ?env ''tcp://192.0.2.5:2101'' = Inr False"
    by (rule scenario_check_empty)
  have 4: "validate_input ?env scenario_input =
      (Inr (''NET42'', \<lparr>title = ''UPB'', host = ''tcp://192.0.2.5:2101'', file_path = Some []\<rparr>),
       [Construct ''tcp://192.0.2.5:2101'' (Some []), Connect, Waited 2, Disconnect])"
    by (rule scenario_validate)
  from 1 2 3 4 5 scenario_file_path
  have created: "async_step_user ?env ConfigFlow (Some scenario_input) =
     (CreateEntry \<lparr>entry_unique_id = Some ''NET42'', entry_title = ''UPB'',
                   entry_data = [CONF_HOST \<mapsto> ''tcp://192.0.2.5:2101'', CONF_FILE_PATH \<mapsto> []]\<rparr>,
      ConfigFlow\<lparr>unique_id := Some ''NET42''\<rparr>,
      [ValidateInput, Construct ''tcp://192.0.2.5:2101'' (Some []), Connect, Waited 2,
       Disconnect])"
    by (intro t [THEN conjunct2, rule_format]) blast
  from t [THEN conjunct1] 1 scenario_first_flow
  show ?thesis
    using created by simp
qed

subsection \<open>The address check\<close>

text \<open>
  Claim C2, as amended. When the hostname of the effective URL of the input is the
  hostname of the host field of a registered entry, the validator is never invoked
  and nothing is called on the device client: the trace is empty. The flow aborts with
  the reason \<open>already_configured\<close> provided every registered entry has a host field.
  The check subscripts \<open>entry.data[CONF_HOST]\<close> of every entry, so when some entry has
  none the check raises \<open>KeyError\<close> and the form is shown with the token \<open>unknown\<close>
  instead.
\<close>

theorem address_duplicate_aborts:
  assumes "make_url_from_data ui = Inr url"
    and "\<exists>e \<in> set (current_entries env). \<exists>h. entry_data e CONF_HOST = Some h \<and>
           hostname env h = hostname env url"
  shows "async_step_user env self (Some ui) =
     (if \<forall>e \<in> set (current_entries env). entry_data e CONF_HOST \<noteq> None
      then Abort ''already_configured'' else ShowForm [''base'' \<mapsto> ''unknown''],
      self, [])"
proof (cases "\<forall>e \<in> set (current_entries env). entry_data e CONF_HOST \<noteq> None")
  case True
  from step_user_address_match [OF assms(1) url_already_configured_True [OF True assms(2)]]
  show ?thesis
    using True by simp
next
  case False
  then have "\<exists>e \<in> set (current_entries env). entry_data e CONF_HOST = None"
    by simp
  from step_user_address_keyerror [OF assms(1) this]
  show ?thesis
    using False by simp
qed

theorem address_duplicate_aborts_witness:
  "async_step_user
     (scenario_env (pim True (Inr (Some 2))) [entry_at ''NET7'' ''tcp://192.0.2.5:2102''])
     ConfigFlow (Some scenario_input) =
   (Abort ''already_configured'', ConfigFlow, [])"
proof -
  let ?env = "scenario_env (pim True (Inr (Some 2))) [entry_at ''NET7'' ''tcp://192.0.2.5:2102'']"
  have 2: "\<forall>e \<in> set (current_entries ?env). entry_data e CONF_HOST \<noteq> None"
    by (simp add: scenario_env_def entry_at_def conf_defs)
  have 3: "\<exists>e \<in> set (current_entries ?env). \<exists>h. entry_data e CONF_HOST = Some h \<and>
      hostname ?env h = hostname ?env ''tcp://192.0.2.5:2101''"
    by (simp add: scenario_env_def entry_at_def urlparse_hostname_def conf_defs)
  from address_duplicate_aborts [OF scenario_url 3, of ConfigFlow] 2
  show ?thesis
    by simp
qed

text \<open>
  The claim as stated (the abort for every input whose hostname is registered) fails on
  a store that the flow itself builds: the user-driven flow registers the device at
  \<open>192.0.2.9\<close>, an import of protocol and address data for a second device stores its
  raw input, which has no host field, and after that the input for \<open>192.0.2.9\<close>, whose
  hostname is registered, is answered with the form and \<open>unknown\<close>.
\<close>

theorem address_duplicate_counterexample:
  "fst (async_step_user (scenario_env (pim True (Inr (Some 2))) []) ConfigFlow
          (Some other_host_input)) =
     CreateEntry (entry_at ''NET42'' ''tcp://192.0.2.9:2101'') \<and>
   fst (async_step_import
          (scenario_env second_pim [entry_at ''NET42'' ''tcp://192.0.2.9:2101''])
          ConfigFlow scenario_input) =
     CreateEntry \<lparr>entry_unique_id = Some ''NET7'', entry_title = ''UPB'',
                  entry_data = scenario_input\<rparr> \<and>
   make_url_from_data other_host_input = Inr ''tcp://192.0.2.9:2101'' \<and>
   async_step_user
     (scenario_env (pim True (Inr (Some 2)))
        [entry_at ''NET42'' ''tcp://192.0.2.9:2101'',
         \<lparr>entry_unique_id = Some ''NET7'', entry_title = ''UPB'',
          entry_data = scenario_input\<rparr>])
     ConfigFlow (Some other_host_input) =
   (ShowForm [''base'' \<mapsto> ''unknown''], ConfigFlow, [])"
proof -
  let ?upb = "pim True (Inr (Some 2))"
  have v: "validate_input (scenario_env ?upb []) other_host_input =
      (Inr (''NET42'',
            \<lparr>title = ''UPB'', host = ''tcp://192.0.2.9:2101'', file_path = Some []\<rparr>),
       [Construct ''tcp://192.0.2.9:2101'' (Some []), Connect, Waited 2, Disconnect])"
    using scenario_validate_any [OF other_host_url, of ?upb "[]"]
    by (simp add: pim_def other_host_file_path)
  have a: "abort_if_unique_id_configured (scenario_env ?upb [])
      (async_set_unique_id ConfigFlow ''NET42'') = None"
    by (simp add: abort_if_unique_id_configured_def scenario_env_def)
  have first: "fst (async_step_user (scenario_env ?upb []) ConfigFlow (Some other_host_input)) =
      CreateEntry (entry_at ''NET42'' ''tcp://192.0.2.9:2101'')"
    using a
    by (simp add: async_step_user_def other_host_url scenario_check_empty v Let_def
        subscript_def other_host_file_path async_create_entry_def async_set_unique_id_def
        ConfigFlow_def entry_at_def)
  have second: "fst (async_step_import
          (scenario_env second_pim [entry_at ''NET42'' ''tcp://192.0.2.9:2101''])
          ConfigFlow scenario_input) =
      CreateEntry \<lparr>entry_unique_id = Some ''NET7'', entry_title = ''UPB'',
                   entry_data = scenario_input\<rparr>"
    using scenario_import_flow
      [of second_pim "[entry_at ''NET42'' ''tcp://192.0.2.9:2101'']", OF scenario_check_other_host]
    by (simp add: second_pim_def entry_at_def)
  have third: "async_step_user
     (scenario_env ?upb
        [entry_at ''NET42'' ''tcp://192.0.2.9:2101'',
         \<lparr>entry_unique_id = Some ''NET7'', entry_title = ''UPB'',
          entry_data = scenario_input\<rparr>])
     ConfigFlow (Some other_host_input) =
     (ShowForm [''base'' \<mapsto> ''unknown''], ConfigFlow, [])"
    by (rule step_user_address_keyerror [OF other_host_url])
       (simp add: scenario_env_def scenario_no_host)
  from first second other_host_url third show ?thesis
    by simp
qed

subsection \<open>Timeout\<close>




subsection \<open>Invalid export file\<close>

text \<open>
  Claim C4. When the device client constructed for the input reports that its
  configuration is not usable (\<open>config_ok\<close> is false: the client found the file path
  it needs missing or invalid), validation raises \<open>InvalidUpbFile\<close>, the flow shows
  the form with the error token \<open>invalid_upb_file\<close>, and \<open>connect\<close> is never called:
  the only call made on the client is its construction. The code does not look at the
  path itself; whether an empty path is acceptable is what the client reports.
\<close>

theorem invalid_file_no_connect:
  assumes "make_url_from_data ui = Inr url"
    and "url_already_configured env url = Inr False"
    and "UpbPim env url (ui CONF_FILE_PATH) = Inr upb"
    and "\<not> config_ok upb"
  shows "validate_input env ui = (Inl InvalidUpbFile, [Construct url (ui CONF_FILE_PATH)]) \<and>
     async_step_user env self (Some ui) =
       (ShowForm [''base'' \<mapsto> ''invalid_upb_file''], self,
        [ValidateInput, Construct url (ui CONF_FILE_PATH)]) \<and>
     Connect \<notin> set (snd (snd (async_step_user env self (Some ui))))"
proof -
  have v: "validate_input env ui = (Inl InvalidUpbFile, [Construct url (ui CONF_FILE_PATH)])"
    using assms(1,3,4) by (simp add: validate_input_def)
  with assms(1,2) show ?thesis
    by (simp add: async_step_user_def except_clauses_def async_show_form_def)
qed

theorem invalid_file_no_connect_witness:
  "async_step_user (scenario_env (pim False (Inr (Some 2))) []) ConfigFlow
       (Some scenario_input) =
     (ShowForm [''base'' \<mapsto> ''invalid_upb_file''], ConfigFlow,
      [ValidateInput, Construct ''tcp://192.0.2.5:2101'' (Some [])])"
proof -
  let ?upb = "pim False (Inr (Some 2))"
  have 3: "UpbPim (scenario_env ?upb []) ''tcp://192.0.2.5:2101''
      (scenario_input CONF_FILE_PATH) = Inr ?upb"
    by (simp add: scenario_env_def)
  have 4: "\<not> config_ok ?upb"
    by (simp add: pim_def)
  from invalid_file_no_connect [OF scenario_url scenario_check_empty 3 4]
  show ?thesis
    by (simp add: scenario_file_path)
qed

subsection \<open>The identifier check\<close>

text \<open>
  Claim C5. When an input passes the address check and validates successfully, but the
  identifier the validator returns is already that of a registered entry (the same
  device submitted again under another address), the flow aborts with the reason
  \<open>already_configured\<close> and the store is left as it was. Hence, starting from an empty
  store, no sequence of flows (user-driven or imports, with any inputs and any device
  clients) ever leaves two entries with the same identifier.
\<close>

theorem identifier_duplicate_aborts:
  "(make_url_from_data ui = Inr url \<and> url_already_configured env url = Inr False \<and>
    validate_input env ui = (Inr (nid, nfo), tr) \<and>
    (\<exists>e \<in> set (current_entries env). entry_unique_id e = Some nid) \<longrightarrow>
      fst (async_step_user env self (Some ui)) = Abort ''already_configured'' \<and>
      persist (current_entries env) (fst (async_step_user env self (Some ui))) =
        current_entries env) \<and>
   distinct (registered_ids (submit_all [] subs))"
proof (intro conjI impI)
  assume h: "make_url_from_data ui = Inr url \<and> url_already_configured env url = Inr False \<and>
    validate_input env ui = (Inr (nid, nfo), tr) \<and>
    (\<exists>e \<in> set (current_entries env). entry_unique_id e = Some nid)"
  then have "abort_if_unique_id_configured env (async_set_unique_id self nid) =
      Some (Abort ''already_configured'')"
    by (auto simp: abort_if_unique_id_configured_def async_set_unique_id_def)
  with h show r: "fst (async_step_user env self (Some ui)) = Abort ''already_configured''"
    by (simp add: async_step_user_def Let_def)
  show "persist (current_entries env) (fst (async_step_user env self (Some ui))) =
      current_entries env"
    by (simp add: r)
next
  show "distinct (registered_ids (submit_all [] subs))"
    by (rule submit_all_distinct) simp
qed

theorem identifier_duplicate_aborts_witness:
  "fst (async_step_user
          (scenario_env (pim True (Inr (Some 2))) [entry_at ''NET42'' ''tcp://192.0.2.9:2101''])
          ConfigFlow (Some scenario_input)) = Abort ''already_configured'' \<and>
   distinct (registered_ids (submit_all []
     [(scenario_env (pim True (Inr (Some 2))) [], ConfigFlow, Some other_host_input),
      (scenario_env (pim True (Inr (Some 2))) [], ConfigFlow, Some scenario_input)]))"
proof -
  let ?env = "scenario_env (pim True (Inr (Some 2))) [entry_at ''NET42'' ''tcp://192.0.2.9:2101'']"
  have 4: "\<exists>e \<in> set (current_entries ?env). entry_unique_id e = Some ''NET42''"
    by (simp add: scenario_env_def entry_at_def)
  from identifier_duplicate_aborts
    [of scenario_input "''tcp://192.0.2.5:2101''" ?env "''NET42''"
      "\<lparr>title = ''UPB'', host = ''tcp://192.0.2.5:2101'', file_path = Some []\<rparr>"
      "[Construct ''tcp://192.0.2.5:2101'' (Some []), Connect, Waited 2, Disconnect]"
      ConfigFlow
      "[(scenario_env (pim True (Inr (Some 2))) [], ConfigFlow, Some other_host_input),
        (scenario_env (pim True (Inr (Some 2))) [], ConfigFlow, Some scenario_input)]"]
    scenario_url scenario_check_other_host scenario_validate 4
  show ?thesis
    by simp
qed

subsection \<open>Closing the connection\<close>

text \<open>
  Claim C6, as amended. The validator has no \<open>finally\<close>: \<open>disconnect\<close> is the
  statement after the wait. \<open>connect\<close> is called exactly when the URL is built, the
  client is constructed and it reports its configuration as usable; on the exits
  before that (the URL cannot be built, the constructor raises, the file is rejected)
  neither \<open>connect\<close> nor \<open>disconnect\<close> is called. \<open>disconnect\<close> is called exactly when
  \<open>connect\<close> has returned and the wait has ended by the signal or by the timeout; the
  calls are then the construction, \<open>connect\<close>, the wait and \<open>disconnect\<close>, in this
  order and once each, before the validator returns or raises (success, timeout, or a
  failing \<open>disconnect\<close>). So every call of \<open>connect\<close> is followed by a call of
  \<open>disconnect\<close> except in two cases, in which the validator raises after \<open>connect\<close>
  without it: \<open>connect\<close> itself raises, or the task is cancelled during the wait.
\<close>

theorem disconnect_follows_connect:
  "(Connect \<in> set (snd (validate_input env data)) \<longleftrightarrow>
      (\<exists>url upb. make_url_from_data data = Inr url \<and>
         UpbPim env url (data CONF_FILE_PATH) = Inr upb \<and> config_ok upb)) \<and>
   (Disconnect \<in> set (snd (validate_input env data)) \<longleftrightarrow>
      (\<exists>url upb signal is_set n. make_url_from_data data = Inr url \<and>
         UpbPim env url (data CONF_FILE_PATH) = Inr upb \<and> config_ok upb \<and>
         connect upb = Inr signal \<and>
         wait_connected VALIDATE_TIMEOUT signal (cancel_at env) = (Inr is_set, n))) \<and>
   (Disconnect \<in> set (snd (validate_input env data)) \<longrightarrow>
      (\<exists>url n. snd (validate_input env data) =
         [Construct url (data CONF_FILE_PATH), Connect, Waited n, Disconnect])) \<and>
   (disconnect_follows (snd (validate_input env data)) \<longleftrightarrow>
      \<not> (\<exists>url upb. make_url_from_data data = Inr url \<and>
            UpbPim env url (data CONF_FILE_PATH) = Inr upb \<and> config_ok upb \<and>
            ((\<exists>e. connect upb = Inl e) \<or>
             (\<exists>signal c. connect upb = Inr signal \<and> cancel_at env = Some c \<and>
                c < (case signal of None \<Rightarrow> VALIDATE_TIMEOUT
                     | Some t \<Rightarrow> min t VALIDATE_TIMEOUT))))) \<and>
   (\<not> disconnect_follows (snd (validate_input env data)) \<longrightarrow>
      (\<exists>e. fst (validate_input env data) = Inl e) \<and>
      Connect \<in> set (snd (validate_input env data)) \<and>
      Disconnect \<notin> set (snd (validate_input env data)))"
proof (intro conjI)
  show "Connect \<in> set (snd (validate_input env data)) \<longleftrightarrow>
      (\<exists>url upb. make_url_from_data data = Inr url \<and>
         UpbPim env url (data CONF_FILE_PATH) = Inr upb \<and> config_ok upb)"
    by (auto simp: validate_input_def Let_def
        split: sum.splits option.splits prod.splits if_splits)
  show "Disconnect \<in> set (snd (validate_input env data)) \<longleftrightarrow>
      (\<exists>url upb signal is_set n. make_url_from_data data = Inr url \<and>
         UpbPim env url (data CONF_FILE_PATH) = Inr upb \<and> config_ok upb \<and>
         connect upb = Inr signal \<and>
         wait_connected VALIDATE_TIMEOUT signal (cancel_at env) = (Inr is_set, n))"
    by (auto simp: validate_input_def Let_def
        split: sum.splits option.splits prod.splits if_splits)
  show "Disconnect \<in> set (snd (validate_input env data)) \<longrightarrow>
      (\<exists>url n. snd (validate_input env data) =
         [Construct url (data CONF_FILE_PATH), Connect, Waited n, Disconnect])"
    by (auto simp: validate_input_def Let_def
        split: sum.splits option.splits prod.splits if_splits)
  have w: "(\<exists>e n. wait_connected VALIDATE_TIMEOUT signal (cancel_at env) = (Inl e, n)) \<longleftrightarrow>
      (\<exists>c. cancel_at env = Some c \<and>
         c < (case signal of None \<Rightarrow> VALIDATE_TIMEOUT | Some t \<Rightarrow> min t VALIDATE_TIMEOUT))"
    for signal
    by (auto simp: wait_connected_def Let_def split: option.splits)
  have "disconnect_follows (snd (validate_input env data)) \<longleftrightarrow>
      \<not> (\<exists>url upb. make_url_from_data data = Inr url \<and>
            UpbPim env url (data CONF_FILE_PATH) = Inr upb \<and> config_ok upb \<and>
            ((\<exists>e. connect upb = Inl e) \<or>
             (\<exists>signal. connect upb = Inr signal \<and>
                (\<exists>e n. wait_connected VALIDATE_TIMEOUT signal (cancel_at env) = (Inl e, n)))))"
    by (auto simp: validate_input_def Let_def
        split: sum.splits option.splits prod.splits if_splits)
  then show "disconnect_follows (snd (validate_input env data)) \<longleftrightarrow>
      \<not> (\<exists>url upb. make_url_from_data data = Inr url \<and>
            UpbPim env url (data CONF_FILE_PATH) = Inr upb \<and> config_ok upb \<and>
            ((\<exists>e. connect upb = Inl e) \<or>
             (\<exists>signal c. connect upb = Inr signal \<and> cancel_at env = Some c \<and>
                c < (case signal of None \<Rightarrow> VALIDATE_TIMEOUT
                     | Some t \<Rightarrow> min t VALIDATE_TIMEOUT))))"
    by (simp add: w)
  show "\<not> disconnect_follows (snd (validate_input env data)) \<longrightarrow>
      (\<exists>e. fst (validate_input env data) = Inl e) \<and>
      Connect \<in> set (snd (validate_input env data)) \<and>
      Disconnect \<notin> set (snd (validate_input env data))"
    by (auto simp: validate_input_def Let_def
        split: sum.splits option.splits prod.splits if_splits)
qed

theorem disconnect_follows_connect_witness:
  "disconnect_follows
     (snd (validate_input (scenario_env (pim True (Inr (Some 2))) []) scenario_input)) \<and>
   snd (validate_input (scenario_env (pim True (Inr (Some 2))) []) scenario_input) =
     [Construct ''tcp://192.0.2.5:2101'' (Some []), Connect, Waited 2, Disconnect] \<and>
   disconnect_follows
     (snd (validate_input (scenario_env (pim True (Inr None)) []) scenario_input)) \<and>
   Connect \<notin> set (snd (validate_input (scenario_env (pim False (Inr None)) [])
     scenario_input)) \<and>
   Disconnect \<notin> set (snd (validate_input (scenario_env (pim False (Inr None)) [])
     scenario_input)) \<and>
   Connect \<in> set (snd (validate_input
     ((scenario_env (pim True (Inr None)) [])\<lparr>cancel_at := Some 3\<rparr>) scenario_input)) \<and>
   \<not> disconnect_follows (snd (validate_input
     ((scenario_env (pim True (Inr None)) [])\<lparr>cancel_at := Some 3\<rparr>) scenario_input))"
proof -
  note ok = disconnect_follows_connect
    [of "scenario_env (pim True (Inr (Some 2))) []" scenario_input]
  note silent = disconnect_follows_connect
    [of "scenario_env (pim True (Inr None)) []" scenario_input]
  note rejected = disconnect_follows_connect
    [of "scenario_env (pim False (Inr None)) []" scenario_input]
  note cancelled = disconnect_follows_connect
    [of "(scenario_env (pim True (Inr None)) [])\<lparr>cancel_at := Some 3\<rparr>" scenario_input]
  have 1: "disconnect_follows
     (snd (validate_input (scenario_env (pim True (Inr (Some 2))) []) scenario_input))"
    using ok by (simp add: scenario_env_def pim_def)
  have 2: "snd (validate_input (scenario_env (pim True (Inr (Some 2))) []) scenario_input) =
     [Construct ''tcp://192.0.2.5:2101'' (Some []), Connect, Waited 2, Disconnect]"
    by (simp add: scenario_validate)
  have 3: "disconnect_follows
     (snd (validate_input (scenario_env (pim True (Inr None)) []) scenario_input))"
    using silent by (simp add: scenario_env_def pim_def)
  have 4: "Connect \<notin> set (snd (validate_input (scenario_env (pim False (Inr None)) [])
     scenario_input))"
    using rejected by (simp add: scenario_env_def pim_def)
  have 5: "Disconnect \<notin> set (snd (validate_input (scenario_env (pim False (Inr None)) [])
     scenario_input))"
    using rejected by (simp add: scenario_env_def pim_def)
  have 6: "Connect \<in> set (snd (validate_input
     ((scenario_env (pim True (Inr None)) [])\<lparr>cancel_at := Some 3\<rparr>) scenario_input))"
    using cancelled by (simp add: scenario_env_def pim_def scenario_url)
  have 7: "\<not> disconnect_follows (snd (validate_input
     ((scenario_env (pim True (Inr None)) [])\<lparr>cancel_at := Some 3\<rparr>) scenario_input))"
    using cancelled
    by (simp add: scenario_env_def pim_def scenario_url VALIDATE_TIMEOUT_def)
  from 1 2 3 4 5 6 7 show ?thesis
    by simp
qed

text \<open>
  The claim as stated (a \<open>disconnect\<close> after every \<open>connect\<close>, whatever the outcome)
  fails for a client whose \<open>connect\<close> raises: the exception leaves the validator
  before \<open>disconnect\<close> is reached.
\<close>

theorem connect_raises_counterexample:
  "validate_input (scenario_env (pim True (Inl (LibraryError ''refused''))) []) scenario_input =
     (Inl (LibraryError ''refused''), [Construct ''tcp://192.0.2.5:2101'' (Some []), Connect]) \<and>
   \<not> disconnect_follows
       (snd (validate_input (scenario_env (pim True (Inl (LibraryError ''refused''))) [])
          scenario_input))"
  by (simp add: validate_input_def scenario_url scenario_env_def pim_def Let_def
      scenario_file_path)

subsection \<open>The effective URL\<close>

text \<open>
  Claim C7. The effective URL is the explicit URL (the host field) when one is present,
  that is, when the field holds a non-empty string; otherwise, for a transport kind
  \<open>k\<close> and an address \<open>a\<close>, it is the string \<open>scheme k\<close> followed by \<open>://\<close> and \<open>a\<close>, with
  TCP mapped to tcp and the serial port to serial. Exactly one of the two sources is
  used: with an explicit URL the protocol and address fields are not read at all, and
  without one the result is built from them alone. Without an explicit URL, an input
  whose protocol is neither of the two names, or which has no address, gets no URL: the
  lookup raises \<open>KeyError\<close>.
\<close>

theorem make_url_from_data_effective:
  "(data CONF_HOST = Some h \<and> h \<noteq> [] \<longrightarrow>
      make_url_from_data data = Inr h \<and>
      make_url_from_data (data(CONF_PROTOCOL := p', CONF_ADDRESS := a')) = Inr h) \<and>
   ((data CONF_HOST = None \<or> data CONF_HOST = Some []) \<and>
      data CONF_PROTOCOL = Some (protocol_name k) \<and> data CONF_ADDRESS = Some a \<longrightarrow>
      make_url_from_data data = Inr (scheme k @ ''://'' @ a)) \<and>
   ((data CONF_HOST = None \<or> data CONF_HOST = Some []) \<and>
      (data CONF_PROTOCOL \<notin> {Some ''TCP'', Some ''Serial port''} \<or> data CONF_ADDRESS = None) \<longrightarrow>
      (\<exists>key. make_url_from_data data = Inl (KeyError key)))"
proof (intro conjI impI)
  assume h: "data CONF_HOST = Some h \<and> h \<noteq> []"
  then show "make_url_from_data data = Inr h"
    by (simp add: make_url_explicit)
  from h have "(data(CONF_PROTOCOL := p', CONF_ADDRESS := a')) CONF_HOST = Some h"
    by (simp add: conf_defs)
  with h show "make_url_from_data (data(CONF_PROTOCOL := p', CONF_ADDRESS := a')) = Inr h"
    by (simp add: make_url_explicit)
next
  assume c: "(data CONF_HOST = None \<or> data CONF_HOST = Some []) \<and>
      data CONF_PROTOCOL = Some (protocol_name k) \<and> data CONF_ADDRESS = Some a"
  then show "make_url_from_data data = Inr (scheme k @ ''://'' @ a)"
    by (simp add: make_url_composed subscript_def PROTOCOL_MAP_scheme)
next
  assume "(data CONF_HOST = None \<or> data CONF_HOST = Some []) \<and>
      (data CONF_PROTOCOL \<notin> {Some ''TCP'', Some ''Serial port''} \<or> data CONF_ADDRESS = None)"
  then show "\<exists>key. make_url_from_data data = Inl (KeyError key)"
    by (auto simp: make_url_composed subscript_def PROTOCOL_MAP_def split: option.splits)
qed

theorem make_url_from_data_effective_witness:
  "make_url_from_data [CONF_HOST \<mapsto> ''tcp://192.0.2.5:2101'', CONF_FILE_PATH \<mapsto> []] =
     Inr ''tcp://192.0.2.5:2101'' \<and>
   make_url_from_data
     [CONF_HOST \<mapsto> ''tcp://192.0.2.5:2101'', CONF_FILE_PATH \<mapsto> [],
      CONF_PROTOCOL \<mapsto> ''TCP'', CONF_ADDRESS \<mapsto> ''192.0.2.9:2101''] =
     Inr ''tcp://192.0.2.5:2101'' \<and>
   make_url_from_data
     [CONF_PROTOCOL \<mapsto> ''Serial port'', CONF_ADDRESS \<mapsto> ''/dev/ttyS0'', CONF_FILE_PATH \<mapsto> []] =
     Inr ''serial:///dev/ttyS0'' \<and>
   make_url_from_data scenario_input = Inr ''tcp://192.0.2.5:2101''"
  using make_url_from_data_effective
      [of "[CONF_HOST \<mapsto> ''tcp://192.0.2.5:2101'', CONF_FILE_PATH \<mapsto> []]"
          "''tcp://192.0.2.5:2101''" "Some ''TCP''" "Some ''192.0.2.9:2101''"
          SerialPort "''/dev/ttyS0''"]
    make_url_from_data_effective
      [of "[CONF_PROTOCOL \<mapsto> ''Serial port'', CONF_ADDRESS \<mapsto> ''/dev/ttyS0'',
            CONF_FILE_PATH \<mapsto> []]"
          "''x''" None None SerialPort "''/dev/ttyS0''"]
    make_url_from_data_effective
      [of scenario_input "''x''" None None TCP "''192.0.2.5:2101''"]
  by (simp add: conf_defs scenario_input_def)

subsection \<open>What is persisted\<close>

text \<open>
  Claim C8. On a successful validation of an input whose identifier is not registered
  yet, the data of the created record depends on the \<open>importing\<close> flag of the flow and
  on nothing else: with the flag unset (the user-driven flow) the data are the resolved
  host URL and the file path the user entered, without the protocol and address fields;
  with the flag set the data are the raw input, verbatim. The import entry point sets
  the flag and then runs the same step.
\<close>

theorem persisted_data_by_variant:
  assumes "make_url_from_data ui = Inr url"
    and "url_already_configured env url = Inr False"
    and "validate_input env ui = (Inr (nid, nfo), tr)"
    and "\<forall>e \<in> set (current_entries env). entry_unique_id e \<noteq> Some nid"
  shows "async_step_import env self ui =
       async_step_user env (self\<lparr>importing := True\<rparr>) (Some ui) \<and>
     fst (async_step_import env self ui) =
       CreateEntry \<lparr>entry_unique_id = Some nid, entry_title = ''UPB'', entry_data = ui\<rparr> \<and>
     (importing self \<longrightarrow> fst (async_step_user env self (Some ui)) =
       CreateEntry \<lparr>entry_unique_id = Some nid, entry_title = ''UPB'', entry_data = ui\<rparr>) \<and>
     (\<not> importing self \<and> ui CONF_FILE_PATH = Some fp \<longrightarrow>
       fst (async_step_user env self (Some ui)) =
       CreateEntry \<lparr>entry_unique_id = Some nid, entry_title = ''UPB'',
                    entry_data = [CONF_HOST \<mapsto> url, CONF_FILE_PATH \<mapsto> fp]\<rparr>)"
proof -
  from validate_input_Inr [OF assms(3)] assms(1)
  have nfo: "title nfo = ''UPB''" "host nfo = url"
    by auto
  have a: "abort_if_unique_id_configured env (async_set_unique_id s nid) = None" for s
    using assms(4) by (auto simp: abort_if_unique_id_configured_def async_set_unique_id_def)
  show ?thesis
    using assms(1-3) nfo a
    by (simp add: async_step_import_def async_step_user_def Let_def subscript_def
        async_create_entry_def async_set_unique_id_def)
qed

theorem persisted_data_by_variant_witness:
  "fst (async_step_import (scenario_env (pim True (Inr (Some 2))) []) ConfigFlow
          scenario_input) =
     CreateEntry \<lparr>entry_unique_id = Some ''NET42'', entry_title = ''UPB'',
                  entry_data = scenario_input\<rparr> \<and>
   fst (async_step_user (scenario_env (pim True (Inr (Some 2))) []) ConfigFlow
          (Some scenario_input)) =
     CreateEntry \<lparr>entry_unique_id = Some ''NET42'', entry_title = ''UPB'',
                  entry_data = [CONF_HOST \<mapsto> ''tcp://192.0.2.5:2101'', CONF_FILE_PATH \<mapsto> []]\<rparr> \<and>
   fst (async_step_user (scenario_env (pim True (Inr (Some 2))) [])
          (ConfigFlow\<lparr>importing := True\<rparr>) (Some scenario_input)) =
     CreateEntry \<lparr>entry_unique_id = Some ''NET42'', entry_title = ''UPB'',
                  entry_data = scenario_input\<rparr>"
proof -
  let ?env = "scenario_env (pim True (Inr (Some 2))) []"
  have 4: "\<forall>e \<in> set (current_entries ?env). entry_unique_id e \<noteq> Some ''NET42''"
    by (simp add: scenario_env_def)
  have u: "\<not> importing ConfigFlow" and i: "importing (ConfigFlow\<lparr>importing := True\<rparr>)"
    by (simp_all add: ConfigFlow_def)
  from persisted_data_by_variant
      [OF scenario_url scenario_check_empty scenario_validate 4, of ConfigFlow "[]"]
    persisted_data_by_variant
      [OF scenario_url scenario_check_empty scenario_validate 4,
       of "ConfigFlow\<lparr>importing := True\<rparr>" "[]"]
    u i scenario_file_path
  show ?thesis
    by simp
qed

subsection \<open>The address check reads hostnames only\<close>




subsection \<open>Unknown protocol\<close>

text \<open>
  Claim C10. For an input without an explicit host (the field is absent, or empty) whose
  protocol value is none of \<open>TCP\<close> and \<open>Serial port\<close> (or is missing), building the
  URL raises \<open>KeyError\<close>. The call is inside the \<open>try\<close>, so the last \<open>except\<close> clause
  catches it: the flow, entered through the import entry point or directly, shows the
  form again with the error token \<open>unknown\<close>, and nothing is called on the device
  client.
\<close>

theorem unknown_protocol_shows_form:
  assumes "ui CONF_HOST = None \<or> ui CONF_HOST = Some []"
    and "ui CONF_PROTOCOL \<noteq> Some ''TCP''"
    and "ui CONF_PROTOCOL \<noteq> Some ''Serial port''"
  shows "(\<exists>k. make_url_from_data ui = Inl (KeyError k)) \<and>
     async_step_import env self ui =
       (ShowForm [''base'' \<mapsto> ''unknown''], self\<lparr>importing := True\<rparr>, []) \<and>
     async_step_user env self (Some ui) = (ShowForm [''base'' \<mapsto> ''unknown''], self, [])"
proof -
  have "\<exists>k. make_url_from_data ui = Inl (KeyError k)"
    using assms
    by (auto simp: make_url_composed subscript_def PROTOCOL_MAP_def split: option.splits)
  then obtain k where k: "make_url_from_data ui = Inl (KeyError k)" ..
  then show ?thesis
    by (simp add: async_step_import_def async_step_user_def except_clauses_def
        async_show_form_def)
qed

theorem unknown_protocol_shows_form_witness:
  "async_step_import (scenario_env (pim True (Inr (Some 2))) []) ConfigFlow junk_input =
     (ShowForm [''base'' \<mapsto> ''unknown''], ConfigFlow\<lparr>importing := True\<rparr>, []) \<and>
   async_step_import (scenario_env (pim True (Inr (Some 2))) []) ConfigFlow
       [CONF_PROTOCOL \<mapsto> ''UDP'', CONF_ADDRESS \<mapsto> ''192.0.2.5:2101'', CONF_FILE_PATH \<mapsto> []] =
     (ShowForm [''base'' \<mapsto> ''unknown''], ConfigFlow\<lparr>importing := True\<rparr>, [])"
proof -
  let ?udp = "[CONF_PROTOCOL \<mapsto> ''UDP'', CONF_ADDRESS \<mapsto> ''192.0.2.5:2101'',
      CONF_FILE_PATH \<mapsto> []]"
  have j: "junk_input CONF_HOST = None \<or> junk_input CONF_HOST = Some []"
    "junk_input CONF_PROTOCOL \<noteq> Some ''TCP''"
    "junk_input CONF_PROTOCOL \<noteq> Some ''Serial port''"
    by (simp_all add: junk_input_def conf_defs)
  have u: "?udp CONF_HOST = None \<or> ?udp CONF_HOST = Some []"
    "?udp CONF_PROTOCOL \<noteq> Some ''TCP''"
    "?udp CONF_PROTOCOL \<noteq> Some ''Serial port''"
    by (simp_all add: conf_defs)
  from unknown_protocol_shows_form [OF j] unknown_protocol_shows_form [OF u]
  show ?thesis
    by blast
qed

end
